theory Spec2Isabelle
  imports Complex_Main
begin

section \<open>Data model of the rebalancer (index.ts)\<close>

text \<open>
  Ticks, fee-tier indices and the half width are JavaScript numbers that hold integers; they
  are modelled as \<open>int\<close>. The one place where the code can leave the integers is the
  division by the tick spacing in \<open>computeTickRange\<close>: a spacing of \<open>0\<close> makes both
  bounds \<open>NaN\<close>, so a computed bound is a \<open>jsnum\<close>.

  Token amounts are \<open>bigint\<close> in the code and \<open>int\<close> here. A value of type
  \<open>number | string | bigint\<close> that is handed to \<open>BigInt()\<close> is modelled by what
  \<open>BigInt()\<close> makes of it: the integer it denotes, or a value that \<open>BigInt()\<close>
  rejects with an exception.
\<close>

datatype jsnum = Finite int | NaN

datatype rawnum = IntegerValue int | NotInteger

datatype error =
    InsufficientBalance
      \<comment> \<open>\<open>Error("Insufficient currencyA balance to cover swap for rebalancing")\<close>\<close>
  | BigIntError
      \<comment> \<open>the exception of \<open>BigInt(value)\<close> on a value that denotes no integer\<close>
  | ServiceError string
      \<comment> \<open>an exception raised inside the Hyperion SDK or the Aptos client\<close>

record TokenInfo =
  assetType :: string
  faType :: "string option"
  coinType :: "string option"
  decimals :: int
  symbol :: string

record IndexedPool =
  currentTick :: int
  feeRate :: rawnum
  feeTier :: int
  poolId :: string
  token1 :: string
  token2 :: string
  token1Info :: TokenInfo
  token2Info :: TokenInfo

record PositionRange =
  tickLower :: int
  tickUpper :: int

record IndexedPosition =
  objectId :: string
  poolId :: string
  currentAmount :: rawnum
  position :: PositionRange
  pool :: "IndexedPool list"

record TickRange =
  lower :: jsnum
  upper :: jsnum

section \<open>Pure helpers\<close>

text \<open>\<open>bigIntFrom\<close> (lines 85-87): \<open>BigInt(value)\<close>, which throws on a non-integer.\<close>

fun bigIntFrom :: "rawnum \<Rightarrow> error + int" where
  "bigIntFrom (IntegerValue n) = Inr n"
| "bigIntFrom NotInteger = Inl BigIntError"

text \<open>\<open>normalizeAddress\<close> (lines 89-94); a missing \<open>info\<close> is \<open>None\<close>.\<close>

definition normalizeAddress :: "TokenInfo option \<Rightarrow> string \<Rightarrow> string" where
  "normalizeAddress info fallback =
     (case info of
        None \<Rightarrow> fallback
      | Some i \<Rightarrow>
          (let rest =
                 (case faType i of
                    None \<Rightarrow> assetType i
                  | Some fa \<Rightarrow> if length fa > 0 then fa else assetType i)
           in (case coinType i of
                 None \<Rightarrow> rest
               | Some coin \<Rightarrow> if length coin > 0 then coin else rest)))"

text \<open>
  \<open>computeTickRange\<close> (lines 96-109). The table \<open>FeeTierStep\<close> belongs to the SDK and is a
  parameter: \<open>FeeTierStep i = None\<close> where the table has no entry at \<open>i\<close>, which is where
  \<open>??\<close> takes its right operand. \<open>Math.floor(currentTick / spacing)\<close> on integers is
  \<open>div\<close>, which rounds towards minus infinity for either sign of the divisor. With
  \<open>spacing = 0\<close> the quotient is infinite or \<open>NaN\<close>, its product with \<open>0\<close> is
  \<open>NaN\<close>, \<open>NaN === NaN\<close> is false, and both bounds are returned as \<open>NaN\<close>.
\<close>

definition computeTickRange :: "(int \<Rightarrow> int option) \<Rightarrow> int \<Rightarrow> int \<Rightarrow> int \<Rightarrow> TickRange" where
  "computeTickRange FeeTierStep' currentTick' feeTierIndex' halfWidth =
     (let spacing = (case FeeTierStep' feeTierIndex' of Some step \<Rightarrow> step | None \<Rightarrow> 1) in
      if spacing = 0 then \<lparr>lower = NaN, upper = NaN\<rparr>
      else
        let rounded = (currentTick' div spacing) * spacing;
            lower' = rounded - halfWidth * spacing;
            upper' = rounded + halfWidth * spacing
        in if lower' = upper'
           then \<lparr>lower = Finite (rounded - spacing), upper = Finite (rounded + spacing)\<rparr>
           else \<lparr>lower = Finite lower', upper = Finite upper'\<rparr>)"

text \<open>\<open>isOutOfRange\<close> (lines 137-143).\<close>

definition isOutOfRange :: "IndexedPosition \<Rightarrow> IndexedPool \<Rightarrow> bool" where
  "isOutOfRange position' pool' =
     (let currentTick' = IndexedPool.currentTick pool' in
      currentTick' \<le> tickLower (IndexedPosition.position position')
      \<or> currentTick' \<ge> tickUpper (IndexedPosition.position position'))"

section \<open>External services, state and exceptions\<close>

text \<open>
  The module constants read from the environment (lines 13-32), the signer's address
  (line 44) and the SDK's table \<open>FeeTierStep\<close>.
\<close>

record Config =
  MONITORED_OWNER :: string
  TARGET_POOL_ID :: string
  SLIPPAGE_PERCENT :: real
  POLL_INTERVAL_MS :: int
  TICK_HALF_WIDTH :: int
  SWAP_SAFE_MODE :: bool
  OWNER_ADDRESS :: string
  FeeTierStep :: "int \<Rightarrow> int option"

text \<open>The \<open>params\<close> argument of \<open>planLiquidity\<close> (lines 148-155).\<close>

record PlanParams =
  currencyA :: string
  currencyB :: string
  feeTierIndex :: int
  tickLower :: jsnum
  tickUpper :: jsnum
  currentTick :: int

text \<open>The quote returned by \<open>sdk.Swap.estFromAmount\<close>, the swap plan and the plan.\<close>

record SwapQuote =
  amountIn :: rawnum
  amountOut :: rawnum
  path :: "string list"

record SwapPlan =
  amountIn :: int
  expectedOut :: int
  path :: "string list"

record Plan =
  swapPlan :: "SwapPlan option"
  depositA :: int
  depositB :: int

text \<open>
  The argument objects of the three payload builders. Amounts are passed to the SDK as
  decimal strings (\<open>toString()\<close> of a \<open>bigint\<close>); the model passes the integer.
  \<^item> \<open>RemoveLiquidityPayload positionId currencyA currencyB currencyAAmount
     currencyBAmount deltaLiquidity slippage recipient\<close>
  \<^item> \<open>SwapPayload currencyA currencyB currencyAAmount currencyBAmount slippage
     poolRoute recipient\<close>
  \<^item> \<open>CreatePoolPayload currencyA currencyB currencyAAmount currencyBAmount
     feeTierIndex currentPriceTick tickLower tickUpper slippage\<close>
\<close>

datatype payloadRequest =
    RemoveLiquidityPayload string string string int int int real string
  | SwapPayload string string int int real "string list" string
  | CreatePoolPayload string string int int int int jsnum jsnum real

text \<open>
  The SDK and the Aptos client are opaque. Each call reads and changes a world \<open>'w\<close>
  (the chain, the indexer, the network) and either returns or throws, so two calls with
  the same arguments may answer differently. \<open>'p\<close> is the type of transaction
  payloads, \<open>'t\<close> that of built transactions. \<open>transactionPayload\<close> stands for
  \<open>sdk.Position.removeLiquidityTransactionPayload\<close>, \<open>sdk.Swap.swapTransactionPayload\<close>
  and \<open>sdk.Pool.createPoolTransactionPayload\<close>, told apart by the request.
  The estimators return an array of which the code reads element \<open>[1]\<close>; the model
  returns elements \<open>[0]\<close> and \<open>[1]\<close> as a pair.
\<close>

record ('w, 'p, 't) Services =
  fetchAllPositionsByAddress :: "string \<Rightarrow> 'w \<Rightarrow> (string + IndexedPosition list) \<times> 'w"
  fetchTokensAmountByPositionId :: "string \<Rightarrow> 'w \<Rightarrow> (string + rawnum \<times> rawnum) \<times> 'w"
  estCurrencyBAmountFromA :: "PlanParams \<Rightarrow> int \<Rightarrow> 'w \<Rightarrow> (string + rawnum \<times> rawnum) \<times> 'w"
  estCurrencyAAmountFromB :: "PlanParams \<Rightarrow> int \<Rightarrow> 'w \<Rightarrow> (string + rawnum \<times> rawnum) \<times> 'w"
  estFromAmount :: "int \<Rightarrow> string \<Rightarrow> string \<Rightarrow> bool \<Rightarrow> 'w \<Rightarrow> (string + SwapQuote) \<times> 'w"
  transactionPayload :: "payloadRequest \<Rightarrow> 'w \<Rightarrow> (string + 'p) \<times> 'w"
  buildSimple :: "string \<Rightarrow> 'p \<Rightarrow> 'w \<Rightarrow> (string + 't) \<times> 'w"
  signAndSubmitTransaction :: "'t \<Rightarrow> 'w \<Rightarrow> (string + string) \<times> 'w"
  waitForTransaction :: "string \<Rightarrow> 'w \<Rightarrow> (string + unit) \<times> 'w"

text \<open>Console output, by the template that produced it.\<close>

datatype logmsg =
    Starting
  | TxHash string string
  | NoPoolData string
  | RemovingLiquidity string int
  | Swapping int string string
  | SkippingAddLiquidity int int
  | AddingLiquidity int string int string
  | OutOfRangeRebalancing string
  | CycleFailed error

text \<open>What the program does to the outside, in order: the calls it makes and what it logs.\<close>

datatype ('p, 't) event =
    CallFetchAllPositionsByAddress string
  | CallFetchTokensAmountByPositionId string
  | CallEstCurrencyBAmountFromA PlanParams int
  | CallEstCurrencyAAmountFromB PlanParams int
  | CallEstFromAmount int string string bool
  | CallTransactionPayload payloadRequest
  | CallBuildSimple string 'p
  | CallSignAndSubmitTransaction 't
  | CallWaitForTransaction string
  | ConsoleInfo logmsg
  | ConsoleWarn logmsg
  | ConsoleError logmsg
  | Sleep int

record ('w, 'p, 't) state =
  world :: 'w
  trace :: "('p, 't) event list"

type_synonym ('a, 'w, 'p, 't) action =
  "('w, 'p, 't) state \<Rightarrow> (error + 'a) \<times> ('w, 'p, 't) state"

text \<open>
  An \<open>async\<close> function is an action on the state that returns a value or an exception.
  \<open>bindE\<close> is \<open>await\<close> followed by the rest of the function: an exception of the
  first action skips the rest.
\<close>

definition returnE :: "'a \<Rightarrow> ('a, 'w, 'p, 't) action" where
  "returnE x s = (Inr x, s)"

definition throwE :: "error \<Rightarrow> ('a, 'w, 'p, 't) action" where
  "throwE e s = (Inl e, s)"

definition liftE :: "error + 'a \<Rightarrow> ('a, 'w, 'p, 't) action" where
  "liftE r s = (r, s)"

definition bindE :: "('a, 'w, 'p, 't) action \<Rightarrow> ('a \<Rightarrow> ('b, 'w, 'p, 't) action) \<Rightarrow> ('b, 'w, 'p, 't) action" where
  "bindE m f s = (case m s of (Inl e, s') \<Rightarrow> (Inl e, s') | (Inr x, s') \<Rightarrow> f x s')"

definition emit :: "('p, 't) event \<Rightarrow> ('w, 'p, 't) state \<Rightarrow> ('w, 'p, 't) state" where
  "emit ev s = s\<lparr>trace := trace s @ [ev]\<rparr>"

definition console :: "('p, 't) event \<Rightarrow> (unit, 'w, 'p, 't) action" where
  "console ev s = (Inr (), emit ev s)"

text \<open>A call of an external service: the call is recorded, the world moves on.\<close>

definition call :: "('p, 't) event \<Rightarrow> ('w \<Rightarrow> (string + 'a) \<times> 'w) \<Rightarrow> ('a, 'w, 'p, 't) action" where
  "call ev service s =
     (case service (world s) of
        (Inl msg, w) \<Rightarrow> (Inl (ServiceError msg), \<lparr>world = w, trace = trace s @ [ev]\<rparr>)
      | (Inr x, w) \<Rightarrow> (Inr x, \<lparr>world = w, trace = trace s @ [ev]\<rparr>))"

section \<open>The program\<close>

text \<open>\<open>submitTransaction\<close> (lines 111-126).\<close>

definition submitTransaction ::
  "('w, 'p, 't) Services \<Rightarrow> Config \<Rightarrow> 'p \<Rightarrow> string \<Rightarrow> (string, 'w, 'p, 't) action" where
  "submitTransaction sdk cfg payload description =
     bindE (call (CallBuildSimple (OWNER_ADDRESS cfg) payload)
              (buildSimple sdk (OWNER_ADDRESS cfg) payload)) (\<lambda>transaction.
     bindE (call (CallSignAndSubmitTransaction transaction)
              (signAndSubmitTransaction sdk transaction)) (\<lambda>hash.
     bindE (call (CallWaitForTransaction hash) (waitForTransaction sdk hash)) (\<lambda>_.
     bindE (console (ConsoleInfo (TxHash description hash))) (\<lambda>_.
     returnE hash))))"

text \<open>
  \<open>fetchPositions\<close> (lines 128-135). \<open>toLowerCase\<close> is modelled on the ASCII letters,
  which is all that an address holds.
\<close>

definition toLowerCase :: "string \<Rightarrow> string" where
  "toLowerCase str =
     map (\<lambda>c. let n = (of_char c :: nat) in if 65 \<le> n \<and> n \<le> 90 then char_of (n + 32) else c) str"

definition fetchPositions ::
  "('w, 'p, 't) Services \<Rightarrow> Config \<Rightarrow> (IndexedPosition list, 'w, 'p, 't) action" where
  "fetchPositions sdk cfg =
     bindE (call (CallFetchAllPositionsByAddress (MONITORED_OWNER cfg))
              (fetchAllPositionsByAddress sdk (MONITORED_OWNER cfg))) (\<lambda>result.
     returnE (filter (\<lambda>position'. toLowerCase (IndexedPosition.poolId position')
                                      = toLowerCase (TARGET_POOL_ID cfg)) result))"

text \<open>
  \<open>planLiquidity\<close> (lines 145-237). The block of lines 183-203 yields the swap plan and
  the two working balances it leaves.
\<close>

definition planLiquidity ::
  "('w, 'p, 't) Services \<Rightarrow> Config \<Rightarrow> int \<Rightarrow> int \<Rightarrow> PlanParams \<Rightarrow> bool \<Rightarrow> (Plan, 'w, 'p, 't) action" where
  "planLiquidity sdk cfg availableA availableB params allowSwap =
     bindE (call (CallEstCurrencyBAmountFromA params availableA)
              (estCurrencyBAmountFromA sdk params availableA)) (\<lambda>estimateFromA.
     bindE (liftE (bigIntFrom (snd estimateFromA))) (\<lambda>requiredB.
     bindE (if allowSwap \<and> requiredB > availableB
            then (let shortfall = requiredB - availableB in
                  bindE (call (CallEstFromAmount shortfall (currencyA params) (currencyB params)
                                 (SWAP_SAFE_MODE cfg))
                           (estFromAmount sdk shortfall (currencyA params) (currencyB params)
                              (SWAP_SAFE_MODE cfg))) (\<lambda>quote.
                  bindE (liftE (bigIntFrom (SwapQuote.amountIn quote))) (\<lambda>amountIn'.
                  bindE (liftE (bigIntFrom (SwapQuote.amountOut quote))) (\<lambda>amountOut'.
                  if amountIn' \<ge> availableA then throwE InsufficientBalance
                  else returnE
                         (Some \<lparr>amountIn = amountIn', expectedOut = amountOut',
                                 path = SwapQuote.path quote\<rparr>,
                          availableA - amountIn', availableB + amountOut')))))
            else returnE (None, availableA, availableB)) (\<lambda>(swapPlan', workingA, workingB).
     bindE (call (CallEstCurrencyBAmountFromA params workingA)
              (estCurrencyBAmountFromA sdk params workingA)) (\<lambda>postSwapEstimate.
     bindE (liftE (bigIntFrom (snd postSwapEstimate))) (\<lambda>depositB'.
     if depositB' > workingB
     then bindE (call (CallEstCurrencyAAmountFromB params workingB)
                   (estCurrencyAAmountFromB sdk params workingB)) (\<lambda>adjust.
          bindE (liftE (bigIntFrom (snd adjust))) (\<lambda>depositA'.
          returnE \<lparr>swapPlan = swapPlan', depositA = depositA', depositB = workingB\<rparr>))
     else returnE \<lparr>swapPlan = swapPlan', depositA = workingA, depositB = depositB'\<rparr>)))))"

text \<open>
  \<open>rebalance\<close> (lines 239-339), in the order of the source. Three of its blocks have a
  name of their own: \<open>rebalance_prepare\<close> is lines 246-289 (target range, balances,
  withdrawal), \<open>rebalance_swap\<close> is lines 297-310 (the swap is submitted and
  confirmed), and \<open>rebalance_plan\<close> is lines 246-314, up to the final plan.
\<close>

definition rebalance_prepare ::
  "('w, 'p, 't) Services \<Rightarrow> Config \<Rightarrow> IndexedPosition \<Rightarrow> IndexedPool
     \<Rightarrow> (PlanParams \<times> int \<times> int, 'w, 'p, 't) action" where
  "rebalance_prepare sdk cfg position' pool' =
     (let feeTierIndex' = feeTier pool';
          currentTick' = IndexedPool.currentTick pool';
          range = computeTickRange (FeeTierStep cfg) currentTick' feeTierIndex' (TICK_HALF_WIDTH cfg);
          currencyA' = normalizeAddress (Some (token1Info pool')) (token1 pool');
          currencyB' = normalizeAddress (Some (token2Info pool')) (token2 pool')
      in
      bindE (call (CallFetchTokensAmountByPositionId (objectId position'))
               (fetchTokensAmountByPositionId sdk (objectId position'))) (\<lambda>(rawA, rawB).
      bindE (liftE (bigIntFrom rawA)) (\<lambda>availableA.
      bindE (liftE (bigIntFrom rawB)) (\<lambda>availableB.
      bindE (liftE (bigIntFrom (currentAmount position'))) (\<lambda>deltaLiquidity.
      bindE (if deltaLiquidity > 0 \<and> (availableA > 0 \<or> availableB > 0)
             then
               bindE (console (ConsoleInfo (RemovingLiquidity (objectId position') deltaLiquidity))) (\<lambda>_.
               bindE (call (CallTransactionPayload
                              (RemoveLiquidityPayload (objectId position') currencyA' currencyB'
                                 availableA availableB deltaLiquidity (SLIPPAGE_PERCENT cfg)
                                 (OWNER_ADDRESS cfg)))
                        (transactionPayload sdk
                              (RemoveLiquidityPayload (objectId position') currencyA' currencyB'
                                 availableA availableB deltaLiquidity (SLIPPAGE_PERCENT cfg)
                                 (OWNER_ADDRESS cfg)))) (\<lambda>removePayload.
               bindE (submitTransaction sdk cfg removePayload ''remove-liquidity'') (\<lambda>_.
               returnE ())))
             else returnE ()) (\<lambda>_.
      returnE
        (\<lparr>currencyA = currencyA', currencyB = currencyB', feeTierIndex = feeTierIndex',
          tickLower = lower range, tickUpper = upper range, currentTick = currentTick'\<rparr>,
         availableA, availableB)))))))"

definition rebalance_swap ::
  "('w, 'p, 't) Services \<Rightarrow> Config \<Rightarrow> IndexedPool \<Rightarrow> PlanParams \<Rightarrow> SwapPlan
     \<Rightarrow> (string, 'w, 'p, 't) action" where
  "rebalance_swap sdk cfg pool' baseParams sp =
     bindE (console (ConsoleInfo (Swapping (SwapPlan.amountIn sp) (symbol (token1Info pool'))
                                    (symbol (token2Info pool'))))) (\<lambda>_.
     bindE (call (CallTransactionPayload
                    (SwapPayload (currencyA baseParams) (currencyB baseParams)
                       (SwapPlan.amountIn sp) (expectedOut sp) (SLIPPAGE_PERCENT cfg)
                       (SwapPlan.path sp) (OWNER_ADDRESS cfg)))
              (transactionPayload sdk
                    (SwapPayload (currencyA baseParams) (currencyB baseParams)
                       (SwapPlan.amountIn sp) (expectedOut sp) (SLIPPAGE_PERCENT cfg)
                       (SwapPlan.path sp) (OWNER_ADDRESS cfg)))) (\<lambda>swapPayload.
     submitTransaction sdk cfg swapPayload ''swap''))"

definition rebalance_plan ::
  "('w, 'p, 't) Services \<Rightarrow> Config \<Rightarrow> IndexedPosition \<Rightarrow> IndexedPool
     \<Rightarrow> (PlanParams \<times> Plan, 'w, 'p, 't) action" where
  "rebalance_plan sdk cfg position' pool' =
     bindE (rebalance_prepare sdk cfg position' pool') (\<lambda>(baseParams, availableA, availableB).
     bindE (planLiquidity sdk cfg availableA availableB baseParams True) (\<lambda>initialPlan.
     case swapPlan initialPlan of
       None \<Rightarrow> returnE (baseParams, initialPlan)
     | Some sp \<Rightarrow>
         bindE (rebalance_swap sdk cfg pool' baseParams sp) (\<lambda>_.
         let postSwapA = availableA - SwapPlan.amountIn sp;
             postSwapB = availableB + expectedOut sp
         in bindE (planLiquidity sdk cfg postSwapA postSwapB baseParams False) (\<lambda>plan.
            returnE (baseParams, plan)))))"

definition rebalance ::
  "('w, 'p, 't) Services \<Rightarrow> Config \<Rightarrow> IndexedPosition \<Rightarrow> (unit, 'w, 'p, 't) action" where
  "rebalance sdk cfg position' =
     (case pool position' of
        [] \<Rightarrow> bindE (console (ConsoleWarn (NoPoolData (objectId position')))) (\<lambda>_. returnE ())
      | pool' # _ \<Rightarrow>
          bindE (rebalance_plan sdk cfg position' pool') (\<lambda>(baseParams, plan).
          if depositA plan = 0 \<or> depositB plan = 0
          then bindE (console (ConsoleWarn (SkippingAddLiquidity (depositA plan) (depositB plan))))
                 (\<lambda>_. returnE ())
          else
            bindE (console (ConsoleInfo (AddingLiquidity (depositA plan) (symbol (token1Info pool'))
                                           (depositB plan) (symbol (token2Info pool'))))) (\<lambda>_.
            bindE (call (CallTransactionPayload
                           (CreatePoolPayload (currencyA baseParams) (currencyB baseParams)
                              (depositA plan) (depositB plan) (feeTierIndex baseParams)
                              (PlanParams.currentTick baseParams) (PlanParams.tickLower baseParams)
                              (PlanParams.tickUpper baseParams) (SLIPPAGE_PERCENT cfg)))
                     (transactionPayload sdk
                           (CreatePoolPayload (currencyA baseParams) (currencyB baseParams)
                              (depositA plan) (depositB plan) (feeTierIndex baseParams)
                              (PlanParams.currentTick baseParams) (PlanParams.tickLower baseParams)
                              (PlanParams.tickUpper baseParams) (SLIPPAGE_PERCENT cfg)))) (\<lambda>addPayload.
            bindE (submitTransaction sdk cfg addPayload ''add-liquidity'') (\<lambda>_.
            returnE ())))))"

text \<open>
  \<open>main\<close> (lines 341-363). \<open>processPosition\<close> is the body of the \<open>for\<close> loop
  (lines 347-356), where \<open>continue\<close> ends the body; \<open>forPositions\<close> is the loop, which
  an exception leaves; \<open>pollCycle\<close> is the body of the \<open>while\<close> loop, whose
  \<open>catch\<close> logs the exception. The \<open>while (true)\<close> loop never ends, so \<open>main\<close>
  takes the number of cycles to run.
\<close>

definition processPosition ::
  "('w, 'p, 't) Services \<Rightarrow> Config \<Rightarrow> IndexedPosition \<Rightarrow> (unit, 'w, 'p, 't) action" where
  "processPosition sdk cfg position' =
     (case pool position' of
        [] \<Rightarrow> returnE ()
      | pool' # _ \<Rightarrow>
          bindE (liftE (bigIntFrom (currentAmount position'))) (\<lambda>currentAmount'.
          if currentAmount' = 0 then returnE ()
          else if isOutOfRange position' pool'
          then bindE (console (ConsoleInfo (OutOfRangeRebalancing (objectId position')))) (\<lambda>_.
               rebalance sdk cfg position')
          else returnE ()))"

fun forPositions ::
  "('w, 'p, 't) Services \<Rightarrow> Config \<Rightarrow> IndexedPosition list \<Rightarrow> (unit, 'w, 'p, 't) action" where
  "forPositions sdk cfg [] s = (Inr (), s)"
| "forPositions sdk cfg (position' # rest) s =
     (case processPosition sdk cfg position' s of
        (Inl e, s') \<Rightarrow> (Inl e, s')
      | (Inr _, s') \<Rightarrow> forPositions sdk cfg rest s')"

definition pollCycle ::
  "('w, 'p, 't) Services \<Rightarrow> Config \<Rightarrow> ('w, 'p, 't) state \<Rightarrow> ('w, 'p, 't) state" where
  "pollCycle sdk cfg s =
     emit (Sleep (POLL_INTERVAL_MS cfg))
       (case bindE (fetchPositions sdk cfg) (forPositions sdk cfg) s of
          (Inl e, s') \<Rightarrow> emit (ConsoleError (CycleFailed e)) s'
        | (Inr _, s') \<Rightarrow> s')"

fun pollCycles ::
  "('w, 'p, 't) Services \<Rightarrow> Config \<Rightarrow> nat \<Rightarrow> ('w, 'p, 't) state \<Rightarrow> ('w, 'p, 't) state" where
  "pollCycles sdk cfg 0 s = s"
| "pollCycles sdk cfg (Suc n) s = pollCycles sdk cfg n (pollCycle sdk cfg s)"

definition main ::
  "('w, 'p, 't) Services \<Rightarrow> Config \<Rightarrow> nat \<Rightarrow> ('w, 'p, 't) state \<Rightarrow> ('w, 'p, 't) state" where
  "main sdk cfg n s = pollCycles sdk cfg n (emit (ConsoleInfo Starting) s)"

section \<open>Vocabulary of the properties\<close>



text \<open>
  A deposit transaction is built from the payload that
  \<open>sdk.Pool.createPoolTransactionPayload\<close> returns, so a trace without a request for that
  payload holds no deposit. The balances of a position are read from the venue by
  \<open>sdk.Position.fetchTokensAmountByPositionId\<close> only.
\<close>

fun isDepositRequest :: "('p, 't) event \<Rightarrow> bool" where
  "isDepositRequest (CallTransactionPayload (CreatePoolPayload a b c d e f g h i)) = True"
| "isDepositRequest _ = False"

fun isBalanceFetch :: "('p, 't) event \<Rightarrow> bool" where
  "isBalanceFetch (CallFetchTokensAmountByPositionId i) = True"
| "isBalanceFetch _ = False"

text \<open>An action keeps \<open>P\<close> when it adds no event that satisfies \<open>P\<close> to the trace.\<close>

definition keeps :: "(('p, 't) event \<Rightarrow> bool) \<Rightarrow> ('a, 'w, 'p, 't) action \<Rightarrow> bool" where
  "keeps P m = (\<forall>s. filter P (trace (snd (m s))) = filter P (trace s))"

section \<open>Sample inputs\<close>

text \<open>
  A configuration with the defaults of lines 29-32 and a table with spacing 10 at index 1;
  a pool at tick 500 with fee tier 1; a position at ticks 450 to 480.
\<close>

definition sampleConfig :: Config where
  "sampleConfig =
     \<lparr>MONITORED_OWNER = ''0xeb4c'', TARGET_POOL_ID = ''0x1609'', SLIPPAGE_PERCENT = 1 / 10,
      POLL_INTERVAL_MS = 60000, TICK_HALF_WIDTH = 10, SWAP_SAFE_MODE = True,
      OWNER_ADDRESS = ''0xeb4c'',
      FeeTierStep = (\<lambda>i. if i = 0 then Some 1 else if i = 1 then Some 10 else None)\<rparr>"

definition sampleToken :: "string \<Rightarrow> TokenInfo" where
  "sampleToken name =
     \<lparr>assetType = name, faType = Some name, coinType = None, decimals = 6, symbol = name\<rparr>"

definition samplePool :: "int \<Rightarrow> IndexedPool" where
  "samplePool tick =
     \<lparr>IndexedPool.currentTick = tick, feeRate = IntegerValue 100, feeTier = 1,
      IndexedPool.poolId = ''0x1609'',
      token1 = ''USD1'', token2 = ''USDC'', token1Info = sampleToken ''USD1'',
      token2Info = sampleToken ''USDC''\<rparr>"

definition samplePosition :: "IndexedPool list \<Rightarrow> IndexedPosition" where
  "samplePosition pools =
     \<lparr>objectId = ''0xa1'', poolId = ''0x1609'', currentAmount = IntegerValue 77,
      position = \<lparr>PositionRange.tickLower = 450, PositionRange.tickUpper = 480\<rparr>, pool = pools\<rparr>"

definition sampleParams :: PlanParams where
  "sampleParams =
     \<lparr>currencyA = ''USD1'', currencyB = ''USDC'', feeTierIndex = 1, tickLower = Finite 400,
      tickUpper = Finite 600, currentTick = 500\<rparr>"

text \<open>
  Sample services. The world counts the calls. A position holds \<open>rawA\<close> and \<open>rawB\<close>;
  the pool pairs two units of A with one of B; a swap costs three units of A for five of B;
  a payload is its request, a built transaction is its payload and every hash is \<open>0x01\<close>.
\<close>

definition sampleServices :: "int \<Rightarrow> int \<Rightarrow> (nat, payloadRequest, payloadRequest) Services" where
  "sampleServices rawA rawB =
     \<lparr>fetchAllPositionsByAddress = (\<lambda>owner w. (Inr [samplePosition [samplePool 500]], Suc w)),
      fetchTokensAmountByPositionId = (\<lambda>positionId w. (Inr (IntegerValue rawA, IntegerValue rawB), Suc w)),
      estCurrencyBAmountFromA = (\<lambda>params amount w. (Inr (IntegerValue amount, IntegerValue (amount div 2)), Suc w)),
      estCurrencyAAmountFromB = (\<lambda>params amount w. (Inr (IntegerValue amount, IntegerValue (amount * 2)), Suc w)),
      estFromAmount = (\<lambda>amount from to safeMode w.
         (Inr \<lparr>SwapQuote.amountIn = IntegerValue (amount * 3 div 5),
               amountOut = IntegerValue amount, SwapQuote.path = [from, to]\<rparr>, Suc w)),
      transactionPayload = (\<lambda>request w. (Inr request, Suc w)),
      buildSimple = (\<lambda>sender payload w. (Inr payload, Suc w)),
      signAndSubmitTransaction = (\<lambda>transaction w. (Inr ''0x01'', Suc w)),
      waitForTransaction = (\<lambda>hash w. (Inr (), Suc w))\<rparr>"


definition costlyServices :: "int \<Rightarrow> int \<Rightarrow> (nat, payloadRequest, payloadRequest) Services" where
  "costlyServices rawA rawB =
     (sampleServices rawA rawB)
       \<lparr>estFromAmount := (\<lambda>amount from to safeMode w.
          (Inr \<lparr>SwapQuote.amountIn = IntegerValue 2000, amountOut = IntegerValue amount,
                SwapQuote.path = [from, to]\<rparr>, Suc w))\<rparr>"

text \<open>The costly quote again, with an \<open>amountOut\<close> that denotes no integer.\<close>

definition malformedServices :: "int \<Rightarrow> int \<Rightarrow> (nat, payloadRequest, payloadRequest) Services" where
  "malformedServices rawA rawB =
     (sampleServices rawA rawB)
       \<lparr>estFromAmount := (\<lambda>amount from to safeMode w.
          (Inr \<lparr>SwapQuote.amountIn = IntegerValue 2000, amountOut = NotInteger,
                SwapQuote.path = [from, to]\<rparr>, Suc w))\<rparr>"

definition sampleState :: "(nat, payloadRequest, payloadRequest) state" where
  "sampleState = \<lparr>world = 0, trace = []\<rparr>"

text \<open>
  The states that \<open>rebalance\<close> passes through from \<open>sampleState\<close> for a position
  that holds 1000 of A and 0 of B: after the withdrawal, after the first plan, and after
  the swap of 300 of A for 500 of B.
\<close>

definition withdrawnState :: "(nat, payloadRequest, payloadRequest) state" where
  "withdrawnState =
     \<lparr>world = 5,
      trace =
        [CallFetchTokensAmountByPositionId ''0xa1'',
         ConsoleInfo (RemovingLiquidity ''0xa1'' 77),
         CallTransactionPayload
           (RemoveLiquidityPayload ''0xa1'' ''USD1'' ''USDC'' 1000 0 77 (1 / 10) ''0xeb4c''),
         CallBuildSimple ''0xeb4c''
           (RemoveLiquidityPayload ''0xa1'' ''USD1'' ''USDC'' 1000 0 77 (1 / 10) ''0xeb4c''),
         CallSignAndSubmitTransaction
           (RemoveLiquidityPayload ''0xa1'' ''USD1'' ''USDC'' 1000 0 77 (1 / 10) ''0xeb4c''),
         CallWaitForTransaction ''0x01'',
         ConsoleInfo (TxHash ''remove-liquidity'' ''0x01'')]\<rparr>"

definition plannedState :: "(nat, payloadRequest, payloadRequest) state" where
  "plannedState =
     \<lparr>world = 8,
      trace =
        trace withdrawnState @
        [CallEstCurrencyBAmountFromA sampleParams 1000,
         CallEstFromAmount 500 ''USD1'' ''USDC'' True,
         CallEstCurrencyBAmountFromA sampleParams 700]\<rparr>"

definition swappedState :: "(nat, payloadRequest, payloadRequest) state" where
  "swappedState =
     \<lparr>world = 12,
      trace =
        trace plannedState @
        [ConsoleInfo (Swapping 300 ''USD1'' ''USDC''),
         CallTransactionPayload
           (SwapPayload ''USD1'' ''USDC'' 300 500 (1 / 10) [''USD1'', ''USDC''] ''0xeb4c''),
         CallBuildSimple ''0xeb4c''
           (SwapPayload ''USD1'' ''USDC'' 300 500 (1 / 10) [''USD1'', ''USDC''] ''0xeb4c''),
         CallSignAndSubmitTransaction
           (SwapPayload ''USD1'' ''USDC'' 300 500 (1 / 10) [''USD1'', ''USDC''] ''0xeb4c''),
         CallWaitForTransaction ''0x01'',
         ConsoleInfo (TxHash ''swap'' ''0x01'')]\<rparr>"

section \<open>The target range\<close>

text \<open>
  C3. For every current tick, every spacing greater than 0 (the table's entry for the fee
  tier, or 1 where there is none) and every half width greater than 0,
  \<open>computeTickRange\<close> returns \<open>lower = rounded - halfWidth * spacing\<close> and
  \<open>upper = rounded + halfWidth * spacing\<close> with
  \<open>rounded = floor (currentTick / spacing) * spacing\<close>; \<open>lower < upper\<close>, both are
  multiples of the spacing and \<open>rounded\<close> lies between them. The function has no
  argument but these, so two calls with the same arguments return the same range.
\<close>

theorem computeTickRange_positive_halfWidth:
  assumes sp: "spacing = (case table feeTierIndex' of Some step \<Rightarrow> step | None \<Rightarrow> 1)"
    and pos: "0 < spacing"
    and hw: "0 < halfWidth"
    and r: "rounded = \<lfloor>real_of_int currentTick' / real_of_int spacing\<rfloor> * spacing"
  shows "computeTickRange table currentTick' feeTierIndex' halfWidth =
           \<lparr>lower = Finite (rounded - halfWidth * spacing),
            upper = Finite (rounded + halfWidth * spacing)\<rparr>
         \<and> rounded - halfWidth * spacing < rounded + halfWidth * spacing
         \<and> spacing dvd (rounded - halfWidth * spacing)
         \<and> spacing dvd (rounded + halfWidth * spacing)
         \<and> rounded - halfWidth * spacing \<le> rounded
         \<and> rounded \<le> rounded + halfWidth * spacing"
proof -
  have r': "rounded = (currentTick' div spacing) * spacing"
    using r by (simp add: floor_divide_of_int_eq)
  have prod: "0 < halfWidth * spacing"
    using pos hw by simp
  have eq: "computeTickRange table currentTick' feeTierIndex' halfWidth =
              \<lparr>lower = Finite (rounded - halfWidth * spacing),
               upper = Finite (rounded + halfWidth * spacing)\<rparr>"
    using sp pos hw unfolding computeTickRange_def r' by (simp add: Let_def)
  have d: "spacing dvd rounded"
    unfolding r' by simp
  show ?thesis
    using eq prod d by simp
qed

text \<open>C3 at tick 507 with spacing 10 and half width 10: the anchor is 500.\<close>

theorem computeTickRange_positive_halfWidth_witness:
  "computeTickRange (FeeTierStep sampleConfig) 507 1 10 = \<lparr>lower = Finite 400, upper = Finite 600\<rparr>"
proof -
  have sp: "(10::int) = (case FeeTierStep sampleConfig 1 of Some step \<Rightarrow> step | None \<Rightarrow> 1)"
    by (simp add: sampleConfig_def)
  have r: "(500::int) = \<lfloor>real_of_int 507 / real_of_int 10\<rfloor> * 10"
    by simp
  show ?thesis
    using sp r
      computeTickRange_positive_halfWidth
        [where spacing = 10 and table = "FeeTierStep sampleConfig" and feeTierIndex' = 1
           and halfWidth = 10 and rounded = 500 and currentTick' = 507]
    by simp
qed

text \<open>
  C7. For every current tick and every spacing greater than 0, \<open>computeTickRange\<close> with
  half width 0 returns \<open>(rounded - spacing, rounded + spacing)\<close>, whose bounds differ.
\<close>

theorem computeTickRange_zero_halfWidth:
  assumes sp: "spacing = (case table feeTierIndex' of Some step \<Rightarrow> step | None \<Rightarrow> 1)"
    and pos: "0 < spacing"
    and r: "rounded = \<lfloor>real_of_int currentTick' / real_of_int spacing\<rfloor> * spacing"
  shows "computeTickRange table currentTick' feeTierIndex' 0 =
           \<lparr>lower = Finite (rounded - spacing), upper = Finite (rounded + spacing)\<rparr>
         \<and> lower (computeTickRange table currentTick' feeTierIndex' 0)
             \<noteq> upper (computeTickRange table currentTick' feeTierIndex' 0)"
proof -
  have r': "rounded = (currentTick' div spacing) * spacing"
    using r by (simp add: floor_divide_of_int_eq)
  have eq: "computeTickRange table currentTick' feeTierIndex' 0 =
              \<lparr>lower = Finite (rounded - spacing), upper = Finite (rounded + spacing)\<rparr>"
    using sp pos unfolding computeTickRange_def r' by (simp add: Let_def)
  show ?thesis
    using pos unfolding eq by simp
qed

text \<open>C7 at tick -3 with spacing 10: the anchor is -10 and the range is -20 to 0.\<close>

theorem computeTickRange_zero_halfWidth_witness:
  "computeTickRange (FeeTierStep sampleConfig) (- 3) 1 0 = \<lparr>lower = Finite (- 20), upper = Finite 0\<rparr>"
proof -
  have sp: "(10::int) = (case FeeTierStep sampleConfig 1 of Some step \<Rightarrow> step | None \<Rightarrow> 1)"
    by (simp add: sampleConfig_def)
  have r: "(- 10::int) = \<lfloor>real_of_int (- 3) / real_of_int 10\<rfloor> * 10"
    by simp
  show ?thesis
    using sp r
      computeTickRange_zero_halfWidth
        [where spacing = 10 and table = "FeeTierStep sampleConfig" and feeTierIndex' = 1
           and rounded = "- 10" and currentTick' = "- 3"]
    by simp
qed

text \<open>
  C9, as stated: a fee-tier index without a table entry yields the range
  \<open>(currentTick - halfWidth, currentTick + halfWidth)\<close>. With half width 0 the guard of
  lines 105-107 widens that range: at tick 5 the code returns 4 to 6, not 5 to 5.
\<close>

theorem computeTickRange_unknown_feeTier_counterexample:
  "FeeTierStep sampleConfig 7 = None
   \<and> computeTickRange (FeeTierStep sampleConfig) 5 7 0 = \<lparr>lower = Finite 4, upper = Finite 6\<rparr>
   \<and> computeTickRange (FeeTierStep sampleConfig) 5 7 0
       \<noteq> \<lparr>lower = Finite (5 - 0), upper = Finite (5 + 0)\<rparr>"
  by (simp add: computeTickRange_def sampleConfig_def)

text \<open>
  C9, amended. For a fee-tier index without a table entry \<open>computeTickRange\<close> does not
  fail and takes the spacing to be 1: it returns
  \<open>(currentTick - halfWidth, currentTick + halfWidth)\<close> when the half width is not 0, and
  \<open>(currentTick - 1, currentTick + 1)\<close> when it is 0.
\<close>

theorem computeTickRange_unknown_feeTier:
  assumes "table feeTierIndex' = None"
  shows "computeTickRange table currentTick' feeTierIndex' halfWidth =
           (if halfWidth = 0
            then \<lparr>lower = Finite (currentTick' - 1), upper = Finite (currentTick' + 1)\<rparr>
            else \<lparr>lower = Finite (currentTick' - halfWidth),
                  upper = Finite (currentTick' + halfWidth)\<rparr>)"
  using assms by (simp add: computeTickRange_def Let_def)

text \<open>C9, amended, at the unknown fee tier 7, tick 507 and half width 10.\<close>

theorem computeTickRange_unknown_feeTier_witness:
  "computeTickRange (FeeTierStep sampleConfig) 507 7 10 = \<lparr>lower = Finite 497, upper = Finite 517\<rparr>"
proof -
  have none: "FeeTierStep sampleConfig 7 = None"
    by (simp add: sampleConfig_def)
  show ?thesis
    using none
      computeTickRange_unknown_feeTier
        [where table = "FeeTierStep sampleConfig" and feeTierIndex' = 7 and currentTick' = 507
           and halfWidth = 10]
    by simp
qed

section \<open>The out-of-range predicate\<close>

text \<open>
  C4. \<open>isOutOfRange\<close> is true if and only if the pool's current tick is at most the
  position's lower tick or at least its upper tick; so it is true at either boundary and
  false strictly inside the range.
\<close>

theorem isOutOfRange_boundaries:
  "(isOutOfRange position' pool' \<longleftrightarrow>
      IndexedPool.currentTick pool' \<le> PositionRange.tickLower (position position')
      \<or> IndexedPool.currentTick pool' \<ge> PositionRange.tickUpper (position position'))
   \<and> (IndexedPool.currentTick pool' = PositionRange.tickLower (position position')
        \<longrightarrow> isOutOfRange position' pool')
   \<and> (IndexedPool.currentTick pool' = PositionRange.tickUpper (position position')
        \<longrightarrow> isOutOfRange position' pool')
   \<and> (PositionRange.tickLower (position position') < IndexedPool.currentTick pool'
        \<and> IndexedPool.currentTick pool' < PositionRange.tickUpper (position position')
        \<longrightarrow> \<not> isOutOfRange position' pool')"
  by (auto simp: isOutOfRange_def Let_def)

text \<open>C4 on the position from 450 to 480, at ticks 450, 465, 480 and 500.\<close>

theorem isOutOfRange_boundaries_witness:
  "isOutOfRange (samplePosition []) (samplePool 450)
   \<and> \<not> isOutOfRange (samplePosition []) (samplePool 465)
   \<and> isOutOfRange (samplePosition []) (samplePool 480)
   \<and> isOutOfRange (samplePosition []) (samplePool 500)"
  using isOutOfRange_boundaries [of "samplePosition []" "samplePool 450"]
    isOutOfRange_boundaries [of "samplePosition []" "samplePool 465"]
    isOutOfRange_boundaries [of "samplePosition []" "samplePool 480"]
    isOutOfRange_boundaries [of "samplePosition []" "samplePool 500"]
  by (simp add: samplePosition_def samplePool_def)

section \<open>Reasoning about actions\<close>

lemma bindE_eq_Inr:
  "bindE m f s = (Inr y, s2) \<longleftrightarrow> (\<exists>x s1. m s = (Inr x, s1) \<and> f x s1 = (Inr y, s2))"
  by (auto simp: bindE_def split: prod.splits sum.splits)

lemma bindE_eq_Inl:
  "bindE m f s = (Inl e, s2) \<longleftrightarrow>
     m s = (Inl e, s2) \<or> (\<exists>x s1. m s = (Inr x, s1) \<and> f x s1 = (Inl e, s2))"
  by (auto simp: bindE_def split: prod.splits sum.splits)

lemma call_eq_Inr:
  "call ev service s = (Inr x, s') \<longleftrightarrow>
     (\<exists>w. service (world s) = (Inr x, w) \<and> s' = \<lparr>world = w, trace = trace s @ [ev]\<rparr>)"
  by (auto simp: call_def split: prod.splits sum.splits)

lemma call_eq_Inl:
  "call ev service s = (Inl e, s') \<longleftrightarrow>
     (\<exists>msg w. service (world s) = (Inl msg, w) \<and> e = ServiceError msg
              \<and> s' = \<lparr>world = w, trace = trace s @ [ev]\<rparr>)"
  by (auto simp: call_def split: prod.splits sum.splits)

lemma liftE_eq: "liftE r s = (r', s') \<longleftrightarrow> r = r' \<and> s' = s"
  by (auto simp: liftE_def)

lemma returnE_eq: "returnE x s = (r, s') \<longleftrightarrow> r = Inr x \<and> s' = s"
  by (auto simp: returnE_def)

lemma throwE_eq: "throwE e s = (r, s') \<longleftrightarrow> r = Inl e \<and> s' = s"
  by (auto simp: throwE_def)

lemma bigIntFrom_eq_Inl: "bigIntFrom r = Inl e \<longleftrightarrow> r = NotInteger \<and> e = BigIntError"
  by (cases r) auto

lemmas run_simps = bindE_def call_def liftE_def returnE_def throwE_def console_def emit_def Let_def

lemmas sample_simps = sampleServices_def sampleConfig_def samplePool_def samplePosition_def
  sampleToken_def sampleState_def sampleParams_def

lemmas program_simps = planLiquidity_def submitTransaction_def rebalance_prepare_def
  rebalance_swap_def computeTickRange_def normalizeAddress_def

section \<open>The liquidity planner\<close>

text \<open>
  C8. With \<open>allowSwap = false\<close>, whatever the balances and whatever the estimator and
  the quote service answer, a plan that \<open>planLiquidity\<close> returns holds no swap plan.
\<close>

theorem planLiquidity_no_swap:
  "planLiquidity sdk cfg availableA availableB params False s = (Inr plan, s')
     \<Longrightarrow> swapPlan plan = None"
  by (auto simp: planLiquidity_def bindE_eq_Inr returnE_eq liftE_eq split: if_splits)

text \<open>
  C8 on 1000 of A and 0 of B: the estimator asks for 500 of B, no quote is requested, and
  the plan is capped by the B balance.
\<close>

theorem planLiquidity_no_swap_witness:
  "planLiquidity (sampleServices 1000 0) sampleConfig 1000 0 sampleParams False sampleState
     = (Inr \<lparr>swapPlan = None, depositA = 0, depositB = 0\<rparr>,
        \<lparr>world = 3,
         trace = [CallEstCurrencyBAmountFromA sampleParams 1000,
                  CallEstCurrencyBAmountFromA sampleParams 1000,
                  CallEstCurrencyAAmountFromB sampleParams 0]\<rparr>)
   \<and> swapPlan \<lparr>swapPlan = None, depositA = 0, depositB = 0\<rparr> = None"
proof -
  have run:
    "planLiquidity (sampleServices 1000 0) sampleConfig 1000 0 sampleParams False sampleState
       = (Inr \<lparr>swapPlan = None, depositA = 0, depositB = 0\<rparr>,
          \<lparr>world = 3,
           trace = [CallEstCurrencyBAmountFromA sampleParams 1000,
                    CallEstCurrencyBAmountFromA sampleParams 1000,
                    CallEstCurrencyAAmountFromB sampleParams 0]\<rparr>)"
    by (simp add: planLiquidity_def run_simps sampleServices_def sampleState_def)
  show ?thesis
    using run planLiquidity_no_swap [OF run] by simp
qed




text \<open>
  C2, as stated: with \<open>allowSwap\<close> true, more B required than available and a quoted
  \<open>amountIn\<close> of at least \<open>availableA\<close>, \<open>planLiquidity\<close> fails with the
  insufficient-balance error. Line 192 converts the quote's \<open>amountOut\<close> before line
  193 compares \<open>amountIn\<close>: on 1000 of A and 0 of B, where 500 of B are required, a
  quote with \<open>amountIn = 2000\<close> and an \<open>amountOut\<close> that denotes no integer fails
  with the exception of \<open>BigInt()\<close>, not with the insufficient-balance error.
\<close>

theorem planLiquidity_insufficient_balance_counterexample:
  "fst (estCurrencyBAmountFromA (malformedServices 1000 0) sampleParams 1000 (world sampleState))
     = Inr (IntegerValue 1000, IntegerValue 500)
   \<and> (500::int) > 0
   \<and> fst (estFromAmount (malformedServices 1000 0) (500 - 0) (currencyA sampleParams)
             (currencyB sampleParams) (SWAP_SAFE_MODE sampleConfig) 1)
       = Inr \<lparr>SwapQuote.amountIn = IntegerValue 2000, amountOut = NotInteger,
              SwapQuote.path = [''USD1'', ''USDC'']\<rparr>
   \<and> (2000::int) \<ge> 1000
   \<and> fst (planLiquidity (malformedServices 1000 0) sampleConfig 1000 0 sampleParams True
             sampleState) = Inl BigIntError
   \<and> fst (planLiquidity (malformedServices 1000 0) sampleConfig 1000 0 sampleParams True
             sampleState) \<noteq> Inl InsufficientBalance"
  by (simp add: planLiquidity_def run_simps malformedServices_def sampleServices_def
        sampleState_def sampleParams_def)

text \<open>
  C2, amended. Let \<open>allowSwap\<close> be true, let the estimator ask for more B than is
  available, and let the quote service answer the shortfall with an integer \<open>amountIn\<close>.
  When the quote's \<open>amountOut\<close> denotes no integer, \<open>planLiquidity\<close> fails with the
  exception of \<open>BigInt()\<close>, whatever \<open>amountIn\<close> is. Otherwise it fails with the
  insufficient-balance error, and so returns no plan, when \<open>amountIn\<close> is at least
  \<open>availableA\<close>, and does not raise that error when \<open>amountIn\<close> is less than
  \<open>availableA\<close>.
\<close>

theorem planLiquidity_insufficient_balance:
  assumes est: "estCurrencyBAmountFromA sdk params availableA (world s) = (Inr estimateFromA, w1)"
    and req: "bigIntFrom (snd estimateFromA) = Inr requiredB"
    and short: "requiredB > availableB"
    and quote: "estFromAmount sdk (requiredB - availableB) (currencyA params) (currencyB params)
                  (SWAP_SAFE_MODE cfg) w1 = (Inr quote, w2)"
    and ain: "bigIntFrom (SwapQuote.amountIn quote) = Inr amountIn'"
  shows "(SwapQuote.amountOut quote = NotInteger
            \<longrightarrow> fst (planLiquidity sdk cfg availableA availableB params True s) = Inl BigIntError)
         \<and> (fst (planLiquidity sdk cfg availableA availableB params True s) = Inl InsufficientBalance
              \<longleftrightarrow> amountIn' \<ge> availableA \<and> SwapQuote.amountOut quote \<noteq> NotInteger)"
proof (cases "SwapQuote.amountOut quote")
  case NotInteger
  then show ?thesis
    using est req short quote ain
    by (simp add: planLiquidity_def run_simps)
next
  case (IntegerValue amountOut')
  show ?thesis
  proof (cases "amountIn' \<ge> availableA")
    case True
    then show ?thesis
      using est req short quote ain IntegerValue
      by (simp add: planLiquidity_def run_simps)
  next
    case False
    obtain r s' where run: "planLiquidity sdk cfg availableA availableB params True s = (r, s')"
      by force
    have "r \<noteq> Inl InsufficientBalance"
    proof
      assume "r = Inl InsufficientBalance"
      with run have "planLiquidity sdk cfg availableA availableB params True s
                       = (Inl InsufficientBalance, s')"
        by simp
      then show False
        using False est req short quote ain IntegerValue
        by (auto simp: planLiquidity_def bindE_eq_Inl bindE_eq_Inr call_eq_Inl call_eq_Inr
              liftE_eq returnE_eq throwE_eq bigIntFrom_eq_Inl Let_def split: if_splits)
    qed
    with run False IntegerValue show ?thesis by simp
  qed
qed

text \<open>
  C2, amended, on 1000 of A and 0 of B, where 500 of B are missing: a quote of 2000 of A
  for 500 of B fails with the insufficient-balance error, a quote of 300 of A for 500 of B
  does not, and a quote of 2000 of A whose \<open>amountOut\<close> denotes no integer fails in
  \<open>BigInt()\<close>.
\<close>

theorem planLiquidity_insufficient_balance_witness:
  "fst (planLiquidity (costlyServices 1000 0) sampleConfig 1000 0 sampleParams True sampleState)
     = Inl InsufficientBalance
   \<and> fst (planLiquidity (sampleServices 1000 0) sampleConfig 1000 0 sampleParams True sampleState)
       \<noteq> Inl InsufficientBalance
   \<and> fst (planLiquidity (malformedServices 1000 0) sampleConfig 1000 0 sampleParams True
             sampleState) = Inl BigIntError"
proof -
  have req: "bigIntFrom (snd (IntegerValue 1000, IntegerValue 500)) = Inr 500"
    by simp
  have short: "(500::int) > 0"
    by simp
  have est: "estCurrencyBAmountFromA (costlyServices 1000 0) sampleParams 1000 (world sampleState)
               = (Inr (IntegerValue 1000, IntegerValue 500), 1)"
    by (simp add: costlyServices_def sampleServices_def sampleState_def)
  have quote: "estFromAmount (costlyServices 1000 0) (500 - 0) (currencyA sampleParams)
                 (currencyB sampleParams) (SWAP_SAFE_MODE sampleConfig) 1
               = (Inr \<lparr>SwapQuote.amountIn = IntegerValue 2000, amountOut = IntegerValue 500,
                       SwapQuote.path = [''USD1'', ''USDC'']\<rparr>, 2)"
    by (simp add: costlyServices_def sampleServices_def sampleParams_def)
  have costly:
    "fst (planLiquidity (costlyServices 1000 0) sampleConfig 1000 0 sampleParams True sampleState)
       = Inl InsufficientBalance"
    using planLiquidity_insufficient_balance [OF est req short quote, of 2000] by simp
  have est': "estCurrencyBAmountFromA (sampleServices 1000 0) sampleParams 1000 (world sampleState)
               = (Inr (IntegerValue 1000, IntegerValue 500), 1)"
    by (simp add: sampleServices_def sampleState_def)
  have quote': "estFromAmount (sampleServices 1000 0) (500 - 0) (currencyA sampleParams)
                 (currencyB sampleParams) (SWAP_SAFE_MODE sampleConfig) 1
               = (Inr \<lparr>SwapQuote.amountIn = IntegerValue 300, amountOut = IntegerValue 500,
                       SwapQuote.path = [''USD1'', ''USDC'']\<rparr>, 2)"
    by (simp add: sampleServices_def sampleParams_def)
  have cheap:
    "fst (planLiquidity (sampleServices 1000 0) sampleConfig 1000 0 sampleParams True sampleState)
       \<noteq> Inl InsufficientBalance"
    using planLiquidity_insufficient_balance [OF est' req short quote', of 300] by simp
  have est'': "estCurrencyBAmountFromA (malformedServices 1000 0) sampleParams 1000
                 (world sampleState)
               = (Inr (IntegerValue 1000, IntegerValue 500), 1)"
    by (simp add: malformedServices_def sampleServices_def sampleState_def)
  have quote'': "estFromAmount (malformedServices 1000 0) (500 - 0) (currencyA sampleParams)
                 (currencyB sampleParams) (SWAP_SAFE_MODE sampleConfig) 1
               = (Inr \<lparr>SwapQuote.amountIn = IntegerValue 2000, amountOut = NotInteger,
                       SwapQuote.path = [''USD1'', ''USDC'']\<rparr>, 2)"
    by (simp add: malformedServices_def sampleServices_def sampleParams_def)
  have malformed:
    "fst (planLiquidity (malformedServices 1000 0) sampleConfig 1000 0 sampleParams True
            sampleState) = Inl BigIntError"
    using planLiquidity_insufficient_balance [OF est'' req short quote'', of 2000] by simp
  show ?thesis
    using costly cheap malformed by simp
qed

section \<open>What an action adds to the trace\<close>

lemma keepsD: "keeps P m \<Longrightarrow> m s = (r, s') \<Longrightarrow> filter P (trace s') = filter P (trace s)"
  unfolding keeps_def by (metis snd_conv)

lemma keeps_returnE: "keeps P (returnE x)"
  by (simp add: keeps_def returnE_def)

lemma keeps_throwE: "keeps P (throwE e)"
  by (simp add: keeps_def throwE_def)

lemma keeps_liftE: "keeps P (liftE r)"
  by (simp add: keeps_def liftE_def)

lemma keeps_console: "\<not> P ev \<Longrightarrow> keeps P (console ev)"
  by (simp add: keeps_def console_def emit_def)

lemma keeps_call: "\<not> P ev \<Longrightarrow> keeps P (call ev service)"
  by (simp add: keeps_def call_def split: prod.splits sum.splits)

lemma keeps_bindE:
  assumes "keeps P m" and "\<And>x. keeps P (f x)"
  shows "keeps P (bindE m f)"
  unfolding keeps_def
proof
  fix s
  obtain r s1 where m: "m s = (r, s1)" by force
  have s1: "filter P (trace s1) = filter P (trace s)"
    using keepsD [OF assms(1) m] .
  show "filter P (trace (snd (bindE m f s))) = filter P (trace s)"
  proof (cases r)
    case (Inl e)
    with m s1 show ?thesis by (simp add: bindE_def)
  next
    case (Inr x)
    obtain r2 s2 where f: "f x s1 = (r2, s2)" by force
    have "filter P (trace s2) = filter P (trace s1)"
      using keepsD [OF assms(2) f] .
    with Inr m f s1 show ?thesis by (simp add: bindE_def)
  qed
qed

lemma keeps_if: "keeps P a \<Longrightarrow> keeps P b \<Longrightarrow> keeps P (if c then a else b)"
  by simp

lemma keeps_case_prod: "(\<And>a b. keeps P (f a b)) \<Longrightarrow> keeps P (case_prod f x)"
  by (cases x) simp

lemma keeps_case_option:
  "keeps P a \<Longrightarrow> (\<And>y. keeps P (f y)) \<Longrightarrow> keeps P (case_option a f x)"
  by (cases x) simp_all

lemmas keeps_intros = keeps_bindE keeps_returnE keeps_throwE keeps_liftE keeps_if
  keeps_case_prod keeps_case_option

text \<open>A recorded call followed by actions that keep \<open>P\<close> adds that one event.\<close>

lemma call_then_keeps:
  assumes "P ev" and "\<And>x. keeps P (f x)"
  shows "filter P (trace (snd (bindE (call ev service) f s))) = filter P (trace s) @ [ev]"
proof -
  obtain r w where c: "service (world s) = (r, w)" by force
  show ?thesis
  proof (cases r)
    case (Inl msg)
    with c assms(1) show ?thesis by (simp add: bindE_def call_def)
  next
    case (Inr x)
    obtain r2 s2 where f: "f x \<lparr>world = w, trace = trace s @ [ev]\<rparr> = (r2, s2)" by force
    have "filter P (trace s2) = filter P (trace \<lparr>world = w, trace = trace s @ [ev]\<rparr>)"
      using keepsD [OF assms(2) f] .
    with Inr c f assms(1) show ?thesis by (simp add: bindE_def call_def)
  qed
qed

lemma keeps_planLiquidity:
  assumes "\<And>p n. \<not> P (CallEstCurrencyBAmountFromA p n)"
    and "\<And>p n. \<not> P (CallEstCurrencyAAmountFromB p n)"
    and "\<And>n a b c. \<not> P (CallEstFromAmount n a b c)"
  shows "keeps P (planLiquidity sdk cfg availableA availableB params allowSwap)"
  unfolding planLiquidity_def Let_def
  by (intro keeps_intros keeps_call assms)

lemma keeps_submitTransaction:
  assumes "\<And>a p. \<not> P (CallBuildSimple a p)"
    and "\<And>t. \<not> P (CallSignAndSubmitTransaction t)"
    and "\<And>h. \<not> P (CallWaitForTransaction h)"
    and "\<And>d h. \<not> P (ConsoleInfo (TxHash d h))"
  shows "keeps P (submitTransaction sdk cfg payload description)"
  unfolding submitTransaction_def
  by (intro keeps_intros keeps_call keeps_console assms)

lemma no_deposit_planLiquidity:
  "keeps isDepositRequest (planLiquidity sdk cfg availableA availableB params allowSwap)"
  by (rule keeps_planLiquidity) simp_all

lemma no_deposit_submitTransaction:
  "keeps isDepositRequest (submitTransaction sdk cfg payload description)"
  by (rule keeps_submitTransaction) simp_all

lemma no_deposit_rebalance_prepare:
  "keeps isDepositRequest (rebalance_prepare sdk cfg position' pool')"
  unfolding rebalance_prepare_def Let_def
  by (intro keeps_intros keeps_call keeps_console no_deposit_submitTransaction) simp_all

lemma no_deposit_rebalance_swap:
  "keeps isDepositRequest (rebalance_swap sdk cfg pool' baseParams sp)"
  unfolding rebalance_swap_def
  by (intro keeps_intros keeps_call keeps_console no_deposit_submitTransaction) simp_all

lemma no_deposit_rebalance_plan:
  "keeps isDepositRequest (rebalance_plan sdk cfg position' pool')"
  unfolding rebalance_plan_def Let_def
  by (intro keeps_intros no_deposit_rebalance_prepare no_deposit_planLiquidity
        no_deposit_rebalance_swap)

lemma no_fetch_planLiquidity:
  "keeps isBalanceFetch (planLiquidity sdk cfg availableA availableB params allowSwap)"
  by (rule keeps_planLiquidity) simp_all

lemma no_fetch_submitTransaction:
  "keeps isBalanceFetch (submitTransaction sdk cfg payload description)"
  by (rule keeps_submitTransaction) simp_all

lemma no_fetch_rebalance_swap:
  "keeps isBalanceFetch (rebalance_swap sdk cfg pool' baseParams sp)"
  unfolding rebalance_swap_def
  by (intro keeps_intros keeps_call keeps_console no_fetch_submitTransaction) simp_all

lemma one_fetch_rebalance_prepare:
  "filter isBalanceFetch (trace (snd (rebalance_prepare sdk cfg position' pool' s)))
     = filter isBalanceFetch (trace s) @ [CallFetchTokensAmountByPositionId (objectId position')]"
  unfolding rebalance_prepare_def Let_def
  by (rule call_then_keeps, simp)
     (intro keeps_intros keeps_call keeps_console no_fetch_submitTransaction; simp)

lemma rebalance_prepare_balances:
  assumes "rebalance_prepare sdk cfg position' pool' s
             = (Inr (baseParams, availableA, availableB), s')"
  shows "\<exists>rawA rawB w. fetchTokensAmountByPositionId sdk (objectId position') (world s)
                          = (Inr (rawA, rawB), w)
                        \<and> bigIntFrom rawA = Inr availableA \<and> bigIntFrom rawB = Inr availableB"
  using assms
  by (auto simp: rebalance_prepare_def Let_def bindE_eq_Inr call_eq_Inr liftE_eq returnE_eq)

section \<open>The orchestrator\<close>

text \<open>
  C5. Let the balances \<open>availableA\<close> and \<open>availableB\<close> have been read and the liquidity
  withdrawn, let the first plan hold a swap, and let the swap have been submitted and
  confirmed. Then what \<open>rebalance\<close> does up to its final plan is the second call of
  \<open>planLiquidity\<close> in the state the swap left, on the balances
  \<open>availableA - amountIn\<close> and \<open>availableB + expectedOut\<close> and with
  \<open>allowSwap = false\<close>. \<open>availableA\<close> and \<open>availableB\<close> are what the venue answered
  to the one request for the position's balances that the run makes.
\<close>

theorem rebalance_second_plan:
  assumes prep: "rebalance_prepare sdk cfg position' pool' s0
                   = (Inr (baseParams, availableA, availableB), s1)"
    and init: "planLiquidity sdk cfg availableA availableB baseParams True s1
                 = (Inr initialPlan, s2)"
    and sp: "swapPlan initialPlan = Some sp"
    and swap: "rebalance_swap sdk cfg pool' baseParams sp s2 = (Inr hash, s3)"
  shows "rebalance_plan sdk cfg position' pool' s0
           = bindE (planLiquidity sdk cfg (availableA - SwapPlan.amountIn sp)
                      (availableB + expectedOut sp) baseParams False)
               (\<lambda>plan. returnE (baseParams, plan)) s3
         \<and> (\<exists>rawA rawB w. fetchTokensAmountByPositionId sdk (objectId position') (world s0)
                              = (Inr (rawA, rawB), w)
                            \<and> bigIntFrom rawA = Inr availableA \<and> bigIntFrom rawB = Inr availableB)
         \<and> filter isBalanceFetch (trace (snd (rebalance_plan sdk cfg position' pool' s0)))
             = filter isBalanceFetch (trace s0)
               @ [CallFetchTokensAmountByPositionId (objectId position')]"
proof -
  let ?second = "bindE (planLiquidity sdk cfg (availableA - SwapPlan.amountIn sp)
                          (availableB + expectedOut sp) baseParams False)
                   (\<lambda>plan. returnE (baseParams, plan))"
  have eq: "rebalance_plan sdk cfg position' pool' s0 = ?second s3"
    by (simp add: rebalance_plan_def bindE_def prep init sp swap Let_def)
  have f1: "filter isBalanceFetch (trace s1)
              = filter isBalanceFetch (trace s0)
                @ [CallFetchTokensAmountByPositionId (objectId position')]"
    using one_fetch_rebalance_prepare [of sdk cfg position' pool' s0] prep by simp
  have f2: "filter isBalanceFetch (trace s2) = filter isBalanceFetch (trace s1)"
    using keepsD [OF no_fetch_planLiquidity init] .
  have f3: "filter isBalanceFetch (trace s3) = filter isBalanceFetch (trace s2)"
    using keepsD [OF no_fetch_rebalance_swap swap] .
  have "keeps isBalanceFetch ?second"
    by (intro keeps_intros no_fetch_planLiquidity)
  then have f4: "filter isBalanceFetch (trace (snd (?second s3)))
                   = filter isBalanceFetch (trace s3)"
    by (simp add: keeps_def)
  show ?thesis
    using eq f1 f2 f3 f4 rebalance_prepare_balances [OF prep] by simp
qed

text \<open>
  C5 on a position that holds 1000 of A and 0 of B: after the swap of 300 of A for 500 of
  B the second plan is made from 700 of A and 500 of B, and deposits 700 and 350.
\<close>

theorem rebalance_second_plan_witness:
  "rebalance_plan (sampleServices 1000 0) sampleConfig (samplePosition [samplePool 500])
     (samplePool 500) sampleState
     = (Inr (sampleParams, \<lparr>swapPlan = None, depositA = 700, depositB = 350\<rparr>),
        \<lparr>world = 14,
         trace = trace swappedState @
                 [CallEstCurrencyBAmountFromA sampleParams 700,
                  CallEstCurrencyBAmountFromA sampleParams 700]\<rparr>)"
proof -
  have prep: "rebalance_prepare (sampleServices 1000 0) sampleConfig
                (samplePosition [samplePool 500]) (samplePool 500) sampleState
              = (Inr (sampleParams, 1000, 0), withdrawnState)"
    by (simp add: program_simps run_simps sample_simps withdrawnState_def)
  have init: "planLiquidity (sampleServices 1000 0) sampleConfig 1000 0 sampleParams True
                withdrawnState
              = (Inr \<lparr>swapPlan = Some \<lparr>amountIn = 300, expectedOut = 500,
                                      path = [''USD1'', ''USDC'']\<rparr>,
                     depositA = 700, depositB = 350\<rparr>, plannedState)"
    by (simp add: program_simps run_simps sample_simps withdrawnState_def plannedState_def)
  have sp: "swapPlan \<lparr>swapPlan = Some \<lparr>amountIn = 300, expectedOut = 500,
                                      path = [''USD1'', ''USDC'']\<rparr>,
                     depositA = 700, depositB = 350\<rparr>
            = Some \<lparr>amountIn = 300, expectedOut = 500, path = [''USD1'', ''USDC'']\<rparr>"
    by simp
  have swap: "rebalance_swap (sampleServices 1000 0) sampleConfig (samplePool 500) sampleParams
                \<lparr>amountIn = 300, expectedOut = 500, path = [''USD1'', ''USDC'']\<rparr> plannedState
              = (Inr ''0x01'', swappedState)"
    by (simp add: program_simps run_simps sample_simps withdrawnState_def plannedState_def
          swappedState_def)
  have second: "bindE (planLiquidity (sampleServices 1000 0) sampleConfig (1000 - 300) (0 + 500)
                         sampleParams False)
                  (\<lambda>plan. returnE (sampleParams, plan)) swappedState
                = (Inr (sampleParams, \<lparr>swapPlan = None, depositA = 700, depositB = 350\<rparr>),
                   \<lparr>world = 14,
                    trace = trace swappedState @
                            [CallEstCurrencyBAmountFromA sampleParams 700,
                             CallEstCurrencyBAmountFromA sampleParams 700]\<rparr>)"
    by (simp add: program_simps run_simps sampleServices_def swappedState_def)
  show ?thesis
    using rebalance_second_plan [OF prep init sp swap] second by simp
qed

text \<open>
  C6. When the final plan of \<open>rebalance\<close> has \<open>depositA = 0\<close> or \<open>depositB = 0\<close>,
  \<open>rebalance\<close> returns without an exception; after the final plan it does nothing but
  log the skipped deposit, and the whole run requests no deposit payload.
\<close>

theorem rebalance_skips_zero_deposit:
  assumes pl: "pool position' = pool' # rest"
    and plan: "rebalance_plan sdk cfg position' pool' s = (Inr (baseParams, plan), s')"
    and zero: "depositA plan = 0 \<or> depositB plan = 0"
  shows "rebalance sdk cfg position' s
           = (Inr (), s'\<lparr>trace := trace s' @ [ConsoleWarn (SkippingAddLiquidity (depositA plan)
                                                            (depositB plan))]\<rparr>)
         \<and> filter isDepositRequest (trace (snd (rebalance sdk cfg position' s)))
             = filter isDepositRequest (trace s)"
proof -
  have eq: "rebalance sdk cfg position' s
              = (Inr (), s'\<lparr>trace := trace s' @ [ConsoleWarn (SkippingAddLiquidity (depositA plan)
                                                               (depositB plan))]\<rparr>)"
    using zero
    by (auto simp: rebalance_def pl plan bindE_def console_def emit_def returnE_def)
  have "filter isDepositRequest (trace s') = filter isDepositRequest (trace s)"
    using keepsD [OF no_deposit_rebalance_plan plan] .
  with eq show ?thesis by simp
qed

text \<open>
  C6 on a position that holds 1 of A and 0 of B: the pool pairs 1 of A with 0 of B, so the
  final plan is 1 of A and 0 of B and the deposit is skipped.
\<close>

theorem rebalance_skips_zero_deposit_witness:
  "rebalance (sampleServices 1 0) sampleConfig (samplePosition [samplePool 500]) sampleState
     = (Inr (),
        \<lparr>world = 7,
         trace =
           [CallFetchTokensAmountByPositionId ''0xa1'',
            ConsoleInfo (RemovingLiquidity ''0xa1'' 77),
            CallTransactionPayload
              (RemoveLiquidityPayload ''0xa1'' ''USD1'' ''USDC'' 1 0 77 (1 / 10) ''0xeb4c''),
            CallBuildSimple ''0xeb4c''
              (RemoveLiquidityPayload ''0xa1'' ''USD1'' ''USDC'' 1 0 77 (1 / 10) ''0xeb4c''),
            CallSignAndSubmitTransaction
              (RemoveLiquidityPayload ''0xa1'' ''USD1'' ''USDC'' 1 0 77 (1 / 10) ''0xeb4c''),
            CallWaitForTransaction ''0x01'',
            ConsoleInfo (TxHash ''remove-liquidity'' ''0x01''),
            CallEstCurrencyBAmountFromA sampleParams 1,
            CallEstCurrencyBAmountFromA sampleParams 1,
            ConsoleWarn (SkippingAddLiquidity 1 0)]\<rparr>)"
proof -
  have pl: "pool (samplePosition [samplePool 500]) = samplePool 500 # []"
    by (simp add: samplePosition_def)
  have plan: "rebalance_plan (sampleServices 1 0) sampleConfig (samplePosition [samplePool 500])
                (samplePool 500) sampleState
              = (Inr (sampleParams, \<lparr>swapPlan = None, depositA = 1, depositB = 0\<rparr>),
                 \<lparr>world = 7,
                  trace =
                    [CallFetchTokensAmountByPositionId ''0xa1'',
                     ConsoleInfo (RemovingLiquidity ''0xa1'' 77),
                     CallTransactionPayload
                       (RemoveLiquidityPayload ''0xa1'' ''USD1'' ''USDC'' 1 0 77 (1 / 10) ''0xeb4c''),
                     CallBuildSimple ''0xeb4c''
                       (RemoveLiquidityPayload ''0xa1'' ''USD1'' ''USDC'' 1 0 77 (1 / 10) ''0xeb4c''),
                     CallSignAndSubmitTransaction
                       (RemoveLiquidityPayload ''0xa1'' ''USD1'' ''USDC'' 1 0 77 (1 / 10) ''0xeb4c''),
                     CallWaitForTransaction ''0x01'',
                     ConsoleInfo (TxHash ''remove-liquidity'' ''0x01''),
                     CallEstCurrencyBAmountFromA sampleParams 1,
                     CallEstCurrencyBAmountFromA sampleParams 1]\<rparr>)"
    by (simp add: rebalance_plan_def program_simps run_simps sample_simps)
  have zero: "depositA \<lparr>swapPlan = None, depositA = 1, depositB = 0\<rparr> = 0
              \<or> depositB \<lparr>swapPlan = None, depositA = 1, depositB = 0\<rparr> = 0"
    by simp
  show ?thesis
    using rebalance_skips_zero_deposit [OF pl plan zero] by simp
qed

text \<open>
  C10. On a position whose list of pool snapshots is empty the body of the poll loop
  does nothing, whatever the position's ticks and liquidity, so the loop goes on to the
  next position; and \<open>rebalance\<close> on it logs one warning and returns, without a call
  of a service and without an exception.
\<close>

theorem empty_pool_list_no_action:
  assumes "pool position' = []"
  shows "processPosition sdk cfg position' s = (Inr (), s)
         \<and> forPositions sdk cfg (position' # rest) s = forPositions sdk cfg rest s
         \<and> rebalance sdk cfg position' s
             = (Inr (), s\<lparr>trace := trace s @ [ConsoleWarn (NoPoolData (objectId position'))]\<rparr>)"
  using assms
  by (simp add: processPosition_def rebalance_def returnE_def bindE_def console_def emit_def)

text \<open>C10 on the sample position without a pool snapshot.\<close>

theorem empty_pool_list_no_action_witness:
  "processPosition (sampleServices 1000 0) sampleConfig (samplePosition []) sampleState
     = (Inr (), sampleState)
   \<and> forPositions (sampleServices 1000 0) sampleConfig [samplePosition []] sampleState
       = (Inr (), sampleState)
   \<and> rebalance (sampleServices 1000 0) sampleConfig (samplePosition []) sampleState
       = (Inr (), \<lparr>world = 0, trace = [ConsoleWarn (NoPoolData ''0xa1'')]\<rparr>)"
proof -
  have empty: "pool (samplePosition []) = []"
    by (simp add: samplePosition_def)
  show ?thesis
    using empty_pool_list_no_action [OF empty, of "sampleServices 1000 0" sampleConfig
        sampleState "[]"]
    by (simp add: samplePosition_def sampleState_def)
qed

end
